theory Spec2Isabelle
  imports Complex_Main "HOL-Library.Word"
begin

section \<open>JavaScript numbers and strings\<close>

text \<open>
  A JavaScript \<open>number\<close> is an IEEE double. The model keeps the three special values
  apart from the finite ones and computes on finite values with exact real arithmetic:
  rounding error and the sign of zero are not represented, the rules for \<open>NaN\<close> and the
  infinities are (\<open>x / 0\<close>, \<open>0 * Infinity\<close>, \<open>Infinity - Infinity\<close>). The only zero divisor
  of the program is \<open>chars.length - 1\<close>, which is \<open>+0\<close>.
\<close>

datatype jsnum = Num real | PosInf | NegInf | NaN

fun is_finite :: "jsnum \<Rightarrow> bool" where
  "is_finite (Num a) = True"
| "is_finite PosInf = False"
| "is_finite NegInf = False"
| "is_finite NaN = False"

instantiation jsnum :: "{plus, times, inverse}"
begin

fun plus_jsnum :: "jsnum \<Rightarrow> jsnum \<Rightarrow> jsnum" where
  "plus_jsnum (Num a) (Num b) = Num (a + b)"
| "plus_jsnum NaN b = NaN"
| "plus_jsnum a NaN = NaN"
| "plus_jsnum PosInf NegInf = NaN"
| "plus_jsnum NegInf PosInf = NaN"
| "plus_jsnum PosInf b = PosInf"
| "plus_jsnum a PosInf = PosInf"
| "plus_jsnum NegInf b = NegInf"
| "plus_jsnum a NegInf = NegInf"

fun times_jsnum :: "jsnum \<Rightarrow> jsnum \<Rightarrow> jsnum" where
  "times_jsnum (Num a) (Num b) = Num (a * b)"
| "times_jsnum NaN b = NaN"
| "times_jsnum a NaN = NaN"
| "times_jsnum PosInf (Num b) = (if b = 0 then NaN else if 0 < b then PosInf else NegInf)"
| "times_jsnum NegInf (Num b) = (if b = 0 then NaN else if 0 < b then NegInf else PosInf)"
| "times_jsnum (Num a) PosInf = (if a = 0 then NaN else if 0 < a then PosInf else NegInf)"
| "times_jsnum (Num a) NegInf = (if a = 0 then NaN else if 0 < a then NegInf else PosInf)"
| "times_jsnum PosInf PosInf = PosInf"
| "times_jsnum NegInf NegInf = PosInf"
| "times_jsnum PosInf NegInf = NegInf"
| "times_jsnum NegInf PosInf = NegInf"

fun divide_jsnum :: "jsnum \<Rightarrow> jsnum \<Rightarrow> jsnum" where
  "divide_jsnum (Num a) (Num b) =
     (if b = 0 then (if a = 0 then NaN else if 0 < a then PosInf else NegInf)
      else Num (a / b))"
| "divide_jsnum NaN b = NaN"
| "divide_jsnum a NaN = NaN"
| "divide_jsnum (Num a) b = Num 0"
| "divide_jsnum PosInf (Num b) = (if 0 \<le> b then PosInf else NegInf)"
| "divide_jsnum NegInf (Num b) = (if 0 \<le> b then NegInf else PosInf)"
| "divide_jsnum a b = NaN"

definition inverse_jsnum :: "jsnum \<Rightarrow> jsnum" where
  "inverse_jsnum a = divide (Num 1) a"

instance ..

end

text \<open>\<open>Math.cos\<close> and \<open>Math.sin\<close>: \<open>NaN\<close> at every non-finite argument.\<close>

fun Math_cos :: "jsnum \<Rightarrow> jsnum" where
  "Math_cos (Num a) = Num (cos a)"
| "Math_cos a = NaN"

fun Math_sin :: "jsnum \<Rightarrow> jsnum" where
  "Math_sin (Num a) = Num (sin a)"
| "Math_sin a = NaN"

text \<open>
  A JavaScript string is a sequence of UTF-16 code units; \<open>text.split("")\<close> cuts it
  into its code units. An ASCII literal of the source is written \<open>js_str ''...''\<close>.
\<close>

type_synonym jsstring = "16 word list"

definition js_str :: "string \<Rightarrow> jsstring" where
  "js_str s = map (\<lambda>c. of_nat (of_char c)) s"

definition split_chars :: "jsstring \<Rightarrow> jsstring list" where
  "split_chars s = map (\<lambda>c. [c]) s"

section \<open>Configuration: \<open>SealOptions\<close> and the constructor\<close>

datatype border_style = Solid | Dashed

text \<open>
  The caller's options: every field is optional (\<open>None\<close> is \<open>undefined\<close>). The numbers
  of a configuration are finite, so a number is falsy exactly when it is \<open>0\<close>; a string
  is falsy exactly when it is empty.
\<close>

record SealOptions =
  opt_size :: "real option"
  opt_color :: "jsstring option"
  opt_company :: "jsstring option"
  opt_title :: "jsstring option"
  opt_starSize :: "real option"
  opt_companyFontSize :: "real option"
  opt_titleFontSize :: "real option"
  opt_rotation :: "real option"
  opt_opacity :: "real option"
  opt_borderWidth :: "real option"
  opt_borderStyle :: "border_style option"
  opt_companyRadiusRatio :: "real option"
  opt_titleRadiusRatio :: "real option"
  opt_starBottomAngle :: "real option"
  opt_showInnerCircle :: "bool option"
  opt_aging :: "bool option"
  opt_agingStrength :: "real option"

text \<open>The resolved options, \<open>Required<SealOptions>\<close> (the field \<open>size\<close> is \<open>size_px\<close>).\<close>

record SealConfig =
  size_px :: real
  color :: jsstring
  company :: jsstring
  title :: jsstring
  starSize :: real
  companyFontSize :: real
  titleFontSize :: real
  rotation :: real
  opacity :: real
  borderWidth :: real
  borderStyle :: border_style
  companyRadiusRatio :: real
  titleRadiusRatio :: real
  starBottomAngle :: real
  showInnerCircle :: bool
  aging :: bool
  agingStrength :: real

text \<open>The empty options object \<open>{}\<close>, the constructor's default argument.\<close>

definition no_options :: SealOptions where
  "no_options = \<lparr> opt_size = None, opt_color = None, opt_company = None, opt_title = None,
     opt_starSize = None, opt_companyFontSize = None, opt_titleFontSize = None,
     opt_rotation = None, opt_opacity = None, opt_borderWidth = None,
     opt_borderStyle = None, opt_companyRadiusRatio = None, opt_titleRadiusRatio = None,
     opt_starBottomAngle = None, opt_showInnerCircle = None, opt_aging = None,
     opt_agingStrength = None \<rparr>"

text \<open>\<open>v || d\<close> on an optional number, string and border style.\<close>

definition or_num :: "real option \<Rightarrow> real \<Rightarrow> real" where
  "or_num v d = (case v of None \<Rightarrow> d | Some x \<Rightarrow> if x = 0 then d else x)"

definition or_str :: "jsstring option \<Rightarrow> jsstring \<Rightarrow> jsstring" where
  "or_str v d = (case v of None \<Rightarrow> d | Some s \<Rightarrow> if s = [] then d else s)"

definition or_style :: "border_style option \<Rightarrow> border_style \<Rightarrow> border_style" where
  "or_style v d = (case v of None \<Rightarrow> d | Some s \<Rightarrow> s)"

text \<open>\<open>v !== undefined ? v : d\<close>.\<close>

definition defined_or :: "'a option \<Rightarrow> 'a \<Rightarrow> 'a" where
  "defined_or v d = (case v of None \<Rightarrow> d | Some x \<Rightarrow> x)"

text \<open>The default company name, the four code units of U+6D4B U+8BD5 U+516C U+53F8.\<close>

definition default_company :: jsstring where
  "default_company = [0x6D4B, 0x8BD5, 0x516C, 0x53F8]"

text \<open>
  The constructor of \<open>SealGenerator\<close>. \<open>registerFonts\<close> catches its own failure and
  changes nothing of the configuration.
\<close>

definition new_SealGenerator :: "SealOptions \<Rightarrow> SealConfig" where
  "new_SealGenerator options = \<lparr>
     size_px = or_num (opt_size options) 400,
     color = or_str (opt_color options) (js_str ''#FF0000''),
     company = or_str (opt_company options) default_company,
     title = or_str (opt_title options) (js_str '' ''),
     starSize = or_num (opt_starSize options) 100,
     companyFontSize = or_num (opt_companyFontSize options) 24,
     titleFontSize = or_num (opt_titleFontSize options) 20,
     rotation = or_num (opt_rotation options) 0,
     opacity = or_num (opt_opacity options) 1.0,
     borderWidth = or_num (opt_borderWidth options) 6,
     borderStyle = or_style (opt_borderStyle options) Solid,
     companyRadiusRatio = or_num (opt_companyRadiusRatio options) 0.75,
     titleRadiusRatio = or_num (opt_titleRadiusRatio options) 0.33,
     starBottomAngle = or_num (opt_starBottomAngle options) 108,
     showInnerCircle = defined_or (opt_showInnerCircle options) True,
     aging = defined_or (opt_aging options) True,
     agingStrength = defined_or (opt_agingStrength options) 0.13 \<rparr>"

section \<open>The canvas surface\<close>

text \<open>
  The drawing context of the \<open>canvas\<close> package is outside this repository. The model keeps
  what the program can set and what it asks the surface to draw: the drawing state (the
  current transform as the list of the \<open>translate\<close> and \<open>rotate\<close> calls in effect, the styles),
  the stack of \<open>save\<close>, the current path, and the list of draw calls, each with the drawing
  state it was made in. Assignments and calls are recorded with the arguments the program
  passes. A font string \<open>bold 24px SimHei\<close> is kept as its three parts.
\<close>

datatype transform_op = Translate jsnum jsnum | Rotate jsnum

datatype path_op = Arc jsnum jsnum jsnum jsnum jsnum

datatype css_font = Font bool real string

record draw_state =
  transform :: "transform_op list"
  globalAlpha :: jsnum
  strokeStyle :: jsstring
  fillStyle :: jsstring
  lineWidth :: jsnum
  shadowColor :: jsstring
  shadowBlur :: jsnum
  shadowOffsetX :: jsnum
  shadowOffsetY :: jsnum
  font :: css_font
  textAlign :: string
  textBaseline :: string

datatype draw_call =
    ClearRect jsnum jsnum jsnum jsnum
  | Stroke "path_op list" draw_state
  | FillText jsstring jsnum jsnum draw_state
  | StrokeText jsstring jsnum jsnum draw_state

record CanvasRenderingContext2D = draw_state +
  stack :: "draw_state list"
  path :: "path_op list"
  calls :: "draw_call list"

text \<open>\<open>createCanvas(size, size).getContext("2d")\<close>: the state a fresh context starts in.\<close>

definition getContext :: CanvasRenderingContext2D where
  "getContext = \<lparr> transform = [], globalAlpha = Num 1,
     strokeStyle = js_str ''#000000'', fillStyle = js_str ''#000000'',
     lineWidth = Num 1, shadowColor = js_str ''rgba(0, 0, 0, 0)'', shadowBlur = Num 0,
     shadowOffsetX = Num 0, shadowOffsetY = Num 0,
     font = Font False 10 ''sans-serif'', textAlign = ''start'',
     textBaseline = ''alphabetic'', stack = [], path = [], calls = [] \<rparr>"

definition current :: "CanvasRenderingContext2D \<Rightarrow> draw_state" where
  "current ctx = draw_state.truncate ctx"

definition save :: "CanvasRenderingContext2D \<Rightarrow> CanvasRenderingContext2D" where
  "save ctx = ctx\<lparr>stack := current ctx # stack ctx\<rparr>"

definition restore :: "CanvasRenderingContext2D \<Rightarrow> CanvasRenderingContext2D" where
  "restore ctx =
     (case stack ctx of
        [] \<Rightarrow> ctx
      | s # rest \<Rightarrow>
          draw_state.extend s (CanvasRenderingContext2D.fields rest (path ctx) (calls ctx)))"

definition clearRect ::
  "jsnum \<Rightarrow> jsnum \<Rightarrow> jsnum \<Rightarrow> jsnum \<Rightarrow> CanvasRenderingContext2D \<Rightarrow> CanvasRenderingContext2D" where
  "clearRect x y w h ctx = ctx\<lparr>calls := calls ctx @ [ClearRect x y w h]\<rparr>"

definition translate ::
  "jsnum \<Rightarrow> jsnum \<Rightarrow> CanvasRenderingContext2D \<Rightarrow> CanvasRenderingContext2D" where
  "translate x y ctx = ctx\<lparr>transform := transform ctx @ [Translate x y]\<rparr>"

definition rotate_ctx :: "jsnum \<Rightarrow> CanvasRenderingContext2D \<Rightarrow> CanvasRenderingContext2D" where
  "rotate_ctx a ctx = ctx\<lparr>transform := transform ctx @ [Rotate a]\<rparr>"

definition beginPath :: "CanvasRenderingContext2D \<Rightarrow> CanvasRenderingContext2D" where
  "beginPath ctx = ctx\<lparr>path := []\<rparr>"

definition arc ::
  "jsnum \<Rightarrow> jsnum \<Rightarrow> jsnum \<Rightarrow> jsnum \<Rightarrow> jsnum \<Rightarrow> CanvasRenderingContext2D
     \<Rightarrow> CanvasRenderingContext2D" where
  "arc x y r a0 a1 ctx = ctx\<lparr>path := path ctx @ [Arc x y r a0 a1]\<rparr>"

definition stroke :: "CanvasRenderingContext2D \<Rightarrow> CanvasRenderingContext2D" where
  "stroke ctx = ctx\<lparr>calls := calls ctx @ [Stroke (path ctx) (current ctx)]\<rparr>"

definition fillText ::
  "jsstring \<Rightarrow> jsnum \<Rightarrow> jsnum \<Rightarrow> CanvasRenderingContext2D \<Rightarrow> CanvasRenderingContext2D" where
  "fillText s x y ctx = ctx\<lparr>calls := calls ctx @ [FillText s x y (current ctx)]\<rparr>"

definition strokeText ::
  "jsstring \<Rightarrow> jsnum \<Rightarrow> jsnum \<Rightarrow> CanvasRenderingContext2D \<Rightarrow> CanvasRenderingContext2D" where
  "strokeText s x y ctx = ctx\<lparr>calls := calls ctx @ [StrokeText s x y (current ctx)]\<rparr>"

section \<open>The renderer\<close>

subsection \<open>\<open>drawBorder\<close>\<close>

text \<open>
  The dashed border: \<open>for (let angle = 0; angle < 360; angle += 10)\<close>, one path and one
  stroke per turn.
\<close>

function dashes ::
  "nat \<Rightarrow> real \<Rightarrow> CanvasRenderingContext2D \<Rightarrow> CanvasRenderingContext2D" where
  "dashes angle radius ctx =
     (if angle < 360 then
        (let startAngle = (real angle * pi) / 180;
             endAngle = ((real angle + 5) * pi) / 180;
             ctx = beginPath ctx;
             ctx = arc (Num 0) (Num 0) (Num radius) (Num startAngle) (Num endAngle) ctx;
             ctx = stroke ctx
         in dashes (angle + 10) radius ctx)
      else ctx)"
  by pat_completeness auto
termination
  by (relation "measure (\<lambda>(angle, radius, ctx). 360 - angle)") auto

declare dashes.simps [simp del]

definition drawBorder ::
  "SealConfig \<Rightarrow> CanvasRenderingContext2D \<Rightarrow> real \<Rightarrow> jsstring \<Rightarrow> real \<Rightarrow> border_style
     \<Rightarrow> CanvasRenderingContext2D" where
  "drawBorder this ctx radius col width style =
     (let ctx = save ctx;
          ctx = beginPath ctx;
          ctx = ctx\<lparr>strokeStyle := col\<rparr>;
          ctx = ctx\<lparr>lineWidth := Num width\<rparr>;
          ctx = ctx\<lparr>shadowColor := js_str ''rgba(0, 0, 0, 0.08)''\<rparr>;
          ctx = ctx\<lparr>shadowBlur := Num 2\<rparr>;
          ctx = (if style = Solid then
                   stroke (arc (Num 0) (Num 0) (Num radius) (Num 0) (Num (pi * 2)) ctx)
                 else dashes 0 radius ctx);
          ctx = restore ctx
      in if showInnerCircle this then
           (let ctx = save ctx;
                ctx = beginPath ctx;
                ctx = ctx\<lparr>strokeStyle := col\<rparr>;
                ctx = ctx\<lparr>lineWidth := Num (max 2 (width * 0.5))\<rparr>;
                ctx = ctx\<lparr>shadowBlur := Num 0\<rparr>;
                ctx = arc (Num 0) (Num 0) (Num (radius - 12)) (Num 0) (Num (pi * 2)) ctx;
                ctx = stroke ctx
            in restore ctx)
         else ctx)"

subsection \<open>\<open>drawStar\<close>\<close>

text \<open>The star glyph U+2605.\<close>

definition star :: jsstring where
  "star = [0x2605]"

definition drawStar ::
  "CanvasRenderingContext2D \<Rightarrow> real \<Rightarrow> real \<Rightarrow> real \<Rightarrow> jsstring \<Rightarrow> CanvasRenderingContext2D" where
  "drawStar ctx x y sz col =
     (let ctx = save ctx;
          ctx = ctx\<lparr>font := Font True sz ''SimHei''\<rparr>;
          ctx = ctx\<lparr>textAlign := ''center''\<rparr>;
          ctx = ctx\<lparr>textBaseline := ''middle''\<rparr>;
          ctx = ctx\<lparr>shadowColor := js_str ''rgba(0, 0, 0, 0.12)''\<rparr>;
          ctx = ctx\<lparr>shadowBlur := Num 2\<rparr>;
          ctx = ctx\<lparr>fillStyle := col\<rparr>;
          ctx = fillText star (Num x) (Num y) ctx;
          ctx = ctx\<lparr>lineWidth := Num 2\<rparr>;
          ctx = ctx\<lparr>strokeStyle := js_str ''#a00000''\<rparr>;
          ctx = ctx\<lparr>shadowBlur := Num 0\<rparr>;
          ctx = strokeText star (Num x) (Num y) ctx
      in restore ctx)"

subsection \<open>\<open>drawCompanyName\<close>\<close>

text \<open>
  The angle of glyph \<open>i\<close> in radians, its position and its rotation, as the callback of
  \<open>chars.forEach\<close> computes them.
\<close>

definition glyphAngle :: "real \<Rightarrow> jsnum \<Rightarrow> nat \<Rightarrow> jsnum" where
  "glyphAngle startAngle angleStep i =
     ((Num startAngle + Num (real i) * angleStep) * Num pi) / Num 180"

definition drawChar ::
  "real \<Rightarrow> jsnum \<Rightarrow> real \<Rightarrow> real \<Rightarrow> jsstring \<Rightarrow> nat \<Rightarrow> jsstring
     \<Rightarrow> CanvasRenderingContext2D \<Rightarrow> CanvasRenderingContext2D" where
  "drawChar startAngle angleStep radius radiusRatio col i char ctx =
     (let angle = glyphAngle startAngle angleStep i;
          x = Num radius * Num radiusRatio * Math_cos angle;
          y = Num radius * Num radiusRatio * Math_sin angle;
          ctx = save ctx;
          ctx = translate x y ctx;
          rotationAngle = angle + Num pi / Num 2;
          ctx = rotate_ctx rotationAngle ctx;
          ctx = ctx\<lparr>shadowColor := js_str ''rgba(0, 0, 0, 0.10)''\<rparr>;
          ctx = ctx\<lparr>shadowBlur := Num 2\<rparr>;
          ctx = ctx\<lparr>shadowOffsetX := Num 1\<rparr>;
          ctx = ctx\<lparr>shadowOffsetY := Num 1\<rparr>;
          ctx = ctx\<lparr>lineWidth := Num 1.2\<rparr>;
          ctx = ctx\<lparr>strokeStyle := col\<rparr>;
          ctx = strokeText char (Num 0) (Num 0) ctx;
          ctx = fillText char (Num 0) (Num 0) ctx
      in restore ctx)"

text \<open>\<open>chars.forEach((char, i) => ...)\<close>, from index \<open>i\<close> on.\<close>

fun forEach_char ::
  "real \<Rightarrow> jsnum \<Rightarrow> real \<Rightarrow> real \<Rightarrow> jsstring \<Rightarrow> nat \<Rightarrow> jsstring list
     \<Rightarrow> CanvasRenderingContext2D \<Rightarrow> CanvasRenderingContext2D" where
  "forEach_char startAngle angleStep radius radiusRatio col i [] ctx = ctx"
| "forEach_char startAngle angleStep radius radiusRatio col i (char # chars) ctx =
     forEach_char startAngle angleStep radius radiusRatio col (Suc i) chars
       (drawChar startAngle angleStep radius radiusRatio col i char ctx)"

definition companyAngleStep :: "jsstring list \<Rightarrow> jsnum" where
  "companyAngleStep chars = Num 240 / Num (real (length chars) - 1)"

definition companyStartAngle :: real where
  "companyStartAngle = - 90 - 240 / 2"

definition drawCompanyName ::
  "CanvasRenderingContext2D \<Rightarrow> jsstring \<Rightarrow> real \<Rightarrow> real \<Rightarrow> jsstring \<Rightarrow> real
     \<Rightarrow> CanvasRenderingContext2D" where
  "drawCompanyName ctx text radius fontSize col radiusRatio =
     (let chars = split_chars text;
          angleStep = companyAngleStep chars;
          startAngle = companyStartAngle;
          ctx = ctx\<lparr>font := Font True fontSize ''SimHei''\<rparr>;
          ctx = ctx\<lparr>fillStyle := col\<rparr>;
          ctx = ctx\<lparr>textAlign := ''center''\<rparr>;
          ctx = ctx\<lparr>textBaseline := ''middle''\<rparr>
      in forEach_char startAngle angleStep radius radiusRatio col 0 chars ctx)"

subsection \<open>\<open>drawTitle\<close>\<close>

definition drawTitle ::
  "CanvasRenderingContext2D \<Rightarrow> jsstring \<Rightarrow> real \<Rightarrow> real \<Rightarrow> jsstring \<Rightarrow> real
     \<Rightarrow> CanvasRenderingContext2D" where
  "drawTitle ctx text radius fontSize col radiusRatio =
     (let ctx = ctx\<lparr>font := Font False fontSize ''SimHei''\<rparr>;
          ctx = ctx\<lparr>fillStyle := col\<rparr>;
          ctx = ctx\<lparr>textAlign := ''center''\<rparr>;
          ctx = ctx\<lparr>textBaseline := ''middle''\<rparr>;
          ctx = ctx\<lparr>shadowColor := js_str ''rgba(0, 0, 0, 0.1)''\<rparr>;
          ctx = ctx\<lparr>shadowBlur := Num 2\<rparr>;
          ctx = ctx\<lparr>shadowOffsetX := Num 1\<rparr>;
          ctx = ctx\<lparr>shadowOffsetY := Num 1\<rparr>
      in fillText text (Num 0) (Num (radius * radiusRatio)) ctx)"

subsection \<open>The drawing part of \<open>generate\<close>\<close>

definition draw :: "SealConfig \<Rightarrow> CanvasRenderingContext2D" where
  "draw this =
     (let sz = size_px this;
          ctx = getContext;
          ctx = clearRect (Num 0) (Num 0) (Num sz) (Num sz) ctx;
          ctx = ctx\<lparr>globalAlpha := Num (opacity this)\<rparr>;
          ctx = translate (Num (sz / 2)) (Num (sz / 2)) ctx;
          ctx = rotate_ctx (Num ((rotation this * pi) / 180)) ctx;
          ctx = drawBorder this ctx (sz / 2 - 20) (color this) (borderWidth this)
                  (borderStyle this);
          ctx = drawStar ctx 0 0 (starSize this) (color this);
          ctx = drawCompanyName ctx (company this) (sz / 2 - 20) (companyFontSize this)
                  (color this) (companyRadiusRatio this)
      in drawTitle ctx (title this) (sz / 2 - 20) (titleFontSize this) (color this)
           (titleRadiusRatio this))"

section \<open>The aging filter\<close>

text \<open>
  \<open>imageData.data\<close> is a \<open>Uint8ClampedArray\<close>: a read gives an integer from 0 to 255, and
  a write of a number stores \<open>ToUint8Clamp\<close> of it (clamped to 0..255, rounded to the nearest
  integer, a tie to the even one). A write beyond the end is dropped, as \<open>xs[j := v]\<close>
  does. The numbers of the filter are finite and are computed in exact real arithmetic.
\<close>

definition ToUint8Clamp :: "real \<Rightarrow> nat" where
  "ToUint8Clamp v =
     (let clamped = min (max v 0) 255;
          f = \<lfloor>clamped\<rfloor>
      in if clamped < real_of_int f + 0.5 then nat f
         else if clamped > real_of_int f + 0.5 then nat (f + 1)
         else if even f then nat f else nat (f + 1))"

definition store :: "nat list \<Rightarrow> nat \<Rightarrow> real \<Rightarrow> nat list" where
  "store data j v = data[j := ToUint8Clamp v]"

text \<open>
  \<open>Math.random()\<close>: the sequence of the values it returns is a parameter \<open>rnd\<close>, and the
  number \<open>k\<close> of draws made so far is threaded through the filter.
\<close>

type_synonym rand = "nat \<Rightarrow> real"

record FadeArea =
  area_x :: real
  area_y :: real
  area_rx :: real
  area_ry :: real
  area_fade :: real

text \<open>One element of \<open>fadeAreas\<close>: five draws, in the order of the object literal.\<close>

definition makeFadeArea :: "real \<Rightarrow> real \<Rightarrow> real \<Rightarrow> rand \<Rightarrow> nat \<Rightarrow> FadeArea \<times> nat" where
  "makeFadeArea cx cy radius rnd k =
     (\<lparr> area_x = cx + (rnd k - 0.5) * radius * 0.7,
         area_y = cy + (rnd (k + 1) - 0.5) * radius * 0.7,
         area_rx = 30 + rnd (k + 2) * 30,
         area_ry = 18 + rnd (k + 3) * 18,
         area_fade = 0.5 + rnd (k + 4) * 0.2 \<rparr>, k + 5)"

text \<open>Step 1 of the loop body: the overall fade of R, G and B.\<close>

definition globalFade :: "real \<Rightarrow> nat \<Rightarrow> nat list \<Rightarrow> nat list" where
  "globalFade strength i data =
     (let data = store data i (real (data ! i) * (0.93 - strength * 0.2));
          data = store data (i + 1) (real (data ! (i + 1)) * (0.93 - strength * 0.1));
          data = store data (i + 2) (real (data ! (i + 2)) * (0.93 - strength * 0.1))
      in data)"

text \<open>Step 2: grain noise, one draw.\<close>

definition grainNoise :: "real \<Rightarrow> rand \<Rightarrow> nat \<Rightarrow> nat list \<times> nat \<Rightarrow> nat list \<times> nat" where
  "grainNoise strength rnd i dk =
     (case dk of (data, k) \<Rightarrow>
        (let noise = (rnd k - 0.5) * 255 * strength * 0.7;
             data = store data i (max 0 (min 255 (real (data ! i) + noise)));
             data = store data (i + 1) (max 0 (min 255 (real (data ! (i + 1)) + noise * 0.5)));
             data = store data (i + 2) (max 0 (min 255 (real (data ! (i + 2)) + noise * 0.5)))
         in (data, k + 1)))"

text \<open>Step 3: edge erosion, in the band of 8 pixels on each side of the border radius.\<close>

definition edgeErosion ::
  "real \<Rightarrow> real \<Rightarrow> real \<Rightarrow> rand \<Rightarrow> nat \<Rightarrow> nat list \<times> nat \<Rightarrow> nat list \<times> nat" where
  "edgeErosion strength distance radius rnd i dk =
     (case dk of (data, k) \<Rightarrow>
        if distance > radius - 8 \<and> distance < radius + 8 then
          (if rnd k < 0.13 * strength then
             (store data (i + 3) (real (data ! (i + 3)) * (0.5 + rnd (k + 1) * 0.3)), k + 2)
           else if rnd (k + 1) < 0.18 * strength then
             (let data = store data i (real (data ! i) * 0.7);
                  data = store data (i + 1) (real (data ! (i + 1)) * 0.7);
                  data = store data (i + 2) (real (data ! (i + 2)) * 0.7)
              in (data, k + 2))
           else (data, k + 2))
        else (data, k))"

text \<open>Step 4: the local fade, \<open>for (const area of fadeAreas)\<close>.\<close>

definition insideArea :: "FadeArea \<Rightarrow> real \<Rightarrow> real \<Rightarrow> bool" where
  "insideArea area x y =
     (let dx = (x - area_x area) / area_rx area;
          dy = (y - area_y area) / area_ry area
      in dx * dx + dy * dy < 1)"

fun localFade ::
  "FadeArea list \<Rightarrow> rand \<Rightarrow> real \<Rightarrow> real \<Rightarrow> nat \<Rightarrow> nat list \<times> nat \<Rightarrow> nat list \<times> nat" where
  "localFade [] rnd x y i dk = dk"
| "localFade (area # areas) rnd x y i dk =
     (case dk of (data, k) \<Rightarrow>
        if insideArea area x y then
          (let data = store data i (real (data ! i) * area_fade area);
               data = store data (i + 1) (real (data ! (i + 1)) * area_fade area);
               data = store data (i + 2) (real (data ! (i + 2)) * area_fade area);
               data = store data (i + 3) (real (data ! (i + 3)) * (0.92 + rnd k * 0.06))
           in localFade areas rnd x y i (data, k + 1))
        else localFade areas rnd x y i (data, k))"

text \<open>Step 5: the alpha jitter, one draw.\<close>

definition alphaJitter :: "rand \<Rightarrow> nat \<Rightarrow> nat list \<times> nat \<Rightarrow> nat list \<times> nat" where
  "alphaJitter rnd i dk =
     (case dk of (data, k) \<Rightarrow>
        (store data (i + 3) (max 0 (min 255 (real (data ! (i + 3)) * (0.97 + rnd k * 0.06)))),
         k + 1))"

text \<open>
  The remainder \<open>a % b\<close> of finite numbers with \<open>b\<close> not zero (the constructor replaces a
  size of 0 by 400): \<open>a\<close> minus \<open>b\<close> times the quotient rounded towards zero.
\<close>

definition js_rem :: "real \<Rightarrow> real \<Rightarrow> real" where
  "js_rem a b = a - b * real_of_int (if 0 \<le> a / b then \<lfloor>a / b\<rfloor> else \<lceil>a / b\<rceil>)"

text \<open>
  The body of the pixel loop at index \<open>i\<close> (\<open>dist\<close> is \<open>distance\<close>). A read beyond the
  end of the array gives \<open>undefined\<close>, and \<open>undefined > 0\<close> is false.
\<close>

definition agePixel ::
  "real \<Rightarrow> real \<Rightarrow> real \<Rightarrow> real \<Rightarrow> real \<Rightarrow> FadeArea list \<Rightarrow> rand \<Rightarrow> nat
     \<Rightarrow> nat list \<times> nat \<Rightarrow> nat list \<times> nat" where
  "agePixel sz cx cy radius strength fadeAreas rnd i dk =
     (case dk of (data, k) \<Rightarrow>
        (let x = js_rem (real i / 4) sz;
             y = real_of_int \<lfloor>real i / 4 / sz\<rfloor>;
             distance = sqrt ((x - cx) ^ 2 + (y - cy) ^ 2)
         in if i + 3 < length data \<and> data ! (i + 3) > 0 then
              (let dk = (globalFade strength i data, k);
                   dk = grainNoise strength rnd i dk;
                   dk = edgeErosion strength distance radius rnd i dk;
                   dk = localFade fadeAreas rnd x y i dk
               in alphaJitter rnd i dk)
            else (data, k)))"

text \<open>No step changes the length of the array, so the pixel loop ends.\<close>

lemma length_store: "length (store data j v) = length data"
  by (simp add: store_def)

lemma length_globalFade: "length (globalFade strength i data) = length data"
  unfolding globalFade_def Let_def by (simp only: length_store)

lemma length_grainNoise: "length (fst (grainNoise strength rnd i dk)) = length (fst dk)"
  unfolding grainNoise_def Let_def by (cases dk) (simp only: prod.case fst_conv length_store)

lemma length_edgeErosion:
  "length (fst (edgeErosion strength distance radius rnd i dk)) = length (fst dk)"
  unfolding edgeErosion_def Let_def
  by (cases dk) (simp only: prod.case fst_conv length_store if_distrib[of fst] if_distrib[of length] if_cancel)

lemma length_localFade: "length (fst (localFade areas rnd x y i dk)) = length (fst dk)"
proof (induction areas arbitrary: dk)
  case Nil
  show ?case by simp
next
  case (Cons a areas)
  obtain data k where dk: "dk = (data, k)" by (cases dk)
  show ?case
    unfolding dk localFade.simps prod.case Let_def
    by (simp only: Cons fst_conv length_store if_distrib[of fst] if_distrib[of length] if_cancel)
qed

lemma length_alphaJitter: "length (fst (alphaJitter rnd i dk)) = length (fst dk)"
  unfolding alphaJitter_def by (cases dk) (simp only: prod.case fst_conv length_store)

lemma length_agePixel:
  "length (fst (agePixel sz cx cy radius strength fadeAreas rnd i dk)) = length (fst dk)"
  unfolding agePixel_def Let_def
  by (cases dk)
     (simp only: prod.case fst_conv length_alphaJitter length_localFade length_edgeErosion
        length_grainNoise length_globalFade if_distrib[of fst] if_distrib[of length] if_cancel)

text \<open>\<open>for (let i = 0; i < data.length; i += 4)\<close>, from index \<open>i\<close> on.\<close>

function agingLoop ::
  "real \<Rightarrow> real \<Rightarrow> real \<Rightarrow> real \<Rightarrow> real \<Rightarrow> FadeArea list \<Rightarrow> rand \<Rightarrow> nat
     \<Rightarrow> nat list \<times> nat \<Rightarrow> nat list \<times> nat" where
  "agingLoop sz cx cy radius strength fadeAreas rnd i dk =
     (if i < length (fst dk) then
        agingLoop sz cx cy radius strength fadeAreas rnd (i + 4)
          (agePixel sz cx cy radius strength fadeAreas rnd i dk)
      else dk)"
  by pat_completeness auto
termination
  by (relation "measure (\<lambda>(sz, cx, cy, radius, strength, fadeAreas, rnd, i, dk).
        length (fst dk) - i)") (auto simp: length_agePixel)

declare agingLoop.simps [simp del]

text \<open>\<open>fadeAreas\<close>: \<open>Array.from({ length: 2 }, () => ...)\<close>, ten draws.\<close>

definition fadeAreas :: "real \<Rightarrow> real \<Rightarrow> real \<Rightarrow> rand \<Rightarrow> FadeArea list \<times> nat" where
  "fadeAreas cx cy radius rnd =
     (let (area0, k) = makeFadeArea cx cy radius rnd 0;
          (area1, k) = makeFadeArea cx cy radius rnd k
      in ([area0, area1], k))"

text \<open>
  \<open>addAgingEffect\<close> on the pixels \<open>data\<close> that \<open>getImageData\<close> returned: the pixels it
  puts back, and the number of draws it made.
\<close>

definition addAgingEffect :: "real \<Rightarrow> real \<Rightarrow> rand \<Rightarrow> nat list \<Rightarrow> nat list \<times> nat" where
  "addAgingEffect sz strength rnd data =
     (let cx = sz / 2;
          cy = sz / 2;
          radius = sz / 2 - 20;
          (areas, k) = fadeAreas cx cy radius rnd
      in agingLoop sz cx cy radius strength areas rnd 0 (data, k))"

section \<open>\<open>generate\<close>\<close>

text \<open>
  The surface is a parameter: \<open>getImageData sz cs\<close> are the pixels of a canvas of side
  \<open>sz\<close> after the draw calls \<open>cs\<close>, and \<open>toBuffer\<close> encodes pixels as a PNG. The result is
  the buffer that \<open>generate\<close> writes to \<open>outputPath\<close> and the number of draws of
  \<open>Math.random()\<close> it made.
\<close>

definition generate ::
  "(real \<Rightarrow> draw_call list \<Rightarrow> nat list) \<Rightarrow> (nat list \<Rightarrow> 'png) \<Rightarrow> SealConfig \<Rightarrow> rand
     \<Rightarrow> 'png \<times> nat" where
  "generate getImageData toBuffer this rnd =
     (let ctx = draw this;
          pixels = getImageData (size_px this) (calls ctx);
          (pixels, k) =
            (if aging this then addAgingEffect (size_px this) (agingStrength this) rnd pixels
             else (pixels, 0))
      in (toBuffer pixels, k))"

section \<open>Reading the draw calls\<close>

text \<open>
  The theorems below read the list of draw calls: which calls stroke a path, which draw
  text, and the drawing states the renderer sets up. \<open>prepared\<close> is the state after the
  global alpha and transform of \<open>generate\<close>, \<open>borderState\<close> and \<open>innerState\<close> are the states
  of the two strokes of \<open>drawBorder\<close>, \<open>glyphState\<close> and \<open>glyphCalls\<close> are the state and
  the two calls of one turn of \<open>chars.forEach\<close>.
\<close>

fun isStroke :: "draw_call \<Rightarrow> bool" where
  "isStroke (Stroke p s) = True"
| "isStroke c = False"

fun isText :: "draw_call \<Rightarrow> bool" where
  "isText (FillText t x y s) = True"
| "isText (StrokeText t x y s) = True"
| "isText c = False"

fun text_of :: "draw_call \<Rightarrow> jsstring" where
  "text_of (FillText t x y s) = t"
| "text_of (StrokeText t x y s) = t"
| "text_of c = []"

definition glyphState :: "draw_state \<Rightarrow> jsstring \<Rightarrow> jsnum \<Rightarrow> jsnum \<Rightarrow> jsnum \<Rightarrow> draw_state" where
  "glyphState s col x y rot =
     s\<lparr>transform := transform s @ [Translate x y, Rotate rot],
       shadowColor := js_str ''rgba(0, 0, 0, 0.10)'', shadowBlur := Num 2,
       shadowOffsetX := Num 1, shadowOffsetY := Num 1, lineWidth := Num 1.2,
       strokeStyle := col\<rparr>"

definition glyphCalls ::
  "draw_state \<Rightarrow> real \<Rightarrow> jsnum \<Rightarrow> real \<Rightarrow> real \<Rightarrow> jsstring \<Rightarrow> nat \<Rightarrow> jsstring \<Rightarrow> draw_call list" where
  "glyphCalls s startAngle angleStep radius radiusRatio col i char =
     (let angle = glyphAngle startAngle angleStep i;
          gs = glyphState s col (Num radius * Num radiusRatio * Math_cos angle)
                 (Num radius * Num radiusRatio * Math_sin angle) (angle + Num pi / Num 2)
      in [StrokeText char (Num 0) (Num 0) gs, FillText char (Num 0) (Num 0) gs])"

definition prepared :: "SealConfig \<Rightarrow> draw_state" where
  "prepared this =
     (current getContext)\<lparr>globalAlpha := Num (opacity this),
        transform := [Translate (Num (size_px this / 2)) (Num (size_px this / 2)),
                      Rotate (Num ((rotation this * pi) / 180))]\<rparr>"

definition borderState :: "SealConfig \<Rightarrow> draw_state" where
  "borderState this =
     (prepared this)\<lparr>strokeStyle := color this, lineWidth := Num (borderWidth this),
        shadowColor := js_str ''rgba(0, 0, 0, 0.08)'', shadowBlur := Num 2\<rparr>"

definition innerState :: "SealConfig \<Rightarrow> draw_state" where
  "innerState this =
     (prepared this)\<lparr>strokeStyle := color this,
        lineWidth := Num (max 2 (borderWidth this * 0.5)), shadowBlur := Num 0\<rparr>"

section \<open>The draw calls of the renderer\<close>

lemmas canvas_defs = restore_def save_def current_def translate_def rotate_ctx_def
  strokeText_def fillText_def stroke_def arc_def beginPath_def clearRect_def
  draw_state.defs CanvasRenderingContext2D.defs

lemma dashes_step:
  "a < 360 \<Longrightarrow> dashes a r ctx =
     dashes (a + 10) r
       (stroke (arc (Num 0) (Num 0) (Num r) (Num ((real a * pi) / 180))
          (Num (((real a + 5) * pi) / 180)) (beginPath ctx)))"
  by (subst dashes.simps) (simp only: Let_def if_True)

lemma dashes_stop: "\<not> a < 360 \<Longrightarrow> dashes a r ctx = ctx"
  by (subst dashes.simps) (simp only: if_False)

lemma dashes_current: "current (dashes a r ctx) = current ctx"
proof (induction "360 - a" arbitrary: a ctx rule: less_induct)
  case less
  show ?case
  proof (cases "a < 360")
    case False
    then show ?thesis by (simp add: dashes_stop)
  next
    case True
    have "360 - (a + 10) < 360 - a" using True by simp
    from less[OF this] show ?thesis
      unfolding dashes_step[OF True] by (simp add: canvas_defs)
  qed
qed

lemma dashes_stack: "stack (dashes a r ctx) = stack ctx"
proof (induction "360 - a" arbitrary: a ctx rule: less_induct)
  case less
  show ?case
  proof (cases "a < 360")
    case False
    then show ?thesis by (simp add: dashes_stop)
  next
    case True
    have "360 - (a + 10) < 360 - a" using True by simp
    from less[OF this] show ?thesis
      unfolding dashes_step[OF True] by (simp add: canvas_defs)
  qed
qed

lemma dashes_calls:
  "calls (dashes a r ctx) = calls ctx @
     map (\<lambda>k. Stroke [Arc (Num 0) (Num 0) (Num r) (Num ((real (a + 10 * k) * pi) / 180))
                     (Num (((real (a + 10 * k) + 5) * pi) / 180))] (current ctx))
       [0..<(369 - a) div 10]"
proof (induction "360 - a" arbitrary: a ctx rule: less_induct)
  case less
  show ?case
  proof (cases "a < 360")
    case False
    then show ?thesis by (simp add: dashes_stop)
  next
    case True
    then have "369 - a = (369 - (a + 10)) + 10" by simp
    then have "(369 - a) div 10 = ((369 - (a + 10)) + 10) div 10" by (rule arg_cong)
    then have m: "(369 - a) div 10 = Suc ((369 - (a + 10)) div 10)" by simp
    have upt: "[0..<Suc n] = 0 # map Suc [0..<n]" for n
      by (simp add: upt_conv_Cons map_Suc_upt del: upt_Suc)
    let ?c = "stroke (arc (Num 0) (Num 0) (Num r) (Num ((real a * pi) / 180))
          (Num (((real a + 5) * pi) / 180)) (beginPath ctx))"
    have cur: "current ?c = current ctx" by (simp add: canvas_defs)
    have cs: "calls ?c = calls ctx @ [Stroke [Arc (Num 0) (Num 0) (Num r) (Num ((real a * pi) / 180))
          (Num (((real a + 5) * pi) / 180))] (current ctx)]" by (simp add: canvas_defs)
    have "360 - (a + 10) < 360 - a" using True by simp
    from less[OF this, of ?c] 
    show ?thesis
      unfolding dashes_step[OF True] m upt
      by (simp add: cur cs comp_def add.assoc del: upt_Suc)
  qed
qed


lemma current_update:
  "current (ctx\<lparr>transform := v1\<rparr>) = (current ctx)\<lparr>transform := v1\<rparr>"
  "current (ctx\<lparr>globalAlpha := v2\<rparr>) = (current ctx)\<lparr>globalAlpha := v2\<rparr>"
  "current (ctx\<lparr>strokeStyle := v3\<rparr>) = (current ctx)\<lparr>strokeStyle := v3\<rparr>"
  "current (ctx\<lparr>fillStyle := v4\<rparr>) = (current ctx)\<lparr>fillStyle := v4\<rparr>"
  "current (ctx\<lparr>lineWidth := v5\<rparr>) = (current ctx)\<lparr>lineWidth := v5\<rparr>"
  "current (ctx\<lparr>shadowColor := v6\<rparr>) = (current ctx)\<lparr>shadowColor := v6\<rparr>"
  "current (ctx\<lparr>shadowBlur := v7\<rparr>) = (current ctx)\<lparr>shadowBlur := v7\<rparr>"
  "current (ctx\<lparr>shadowOffsetX := v8\<rparr>) = (current ctx)\<lparr>shadowOffsetX := v8\<rparr>"
  "current (ctx\<lparr>shadowOffsetY := v9\<rparr>) = (current ctx)\<lparr>shadowOffsetY := v9\<rparr>"
  "current (ctx\<lparr>font := v10\<rparr>) = (current ctx)\<lparr>font := v10\<rparr>"
  "current (ctx\<lparr>textAlign := v11\<rparr>) = (current ctx)\<lparr>textAlign := v11\<rparr>"
  "current (ctx\<lparr>textBaseline := v12\<rparr>) = (current ctx)\<lparr>textBaseline := v12\<rparr>"
  "current (ctx\<lparr>stack := v13\<rparr>) = current ctx"
  "current (ctx\<lparr>path := v14\<rparr>) = current ctx"
  "current (ctx\<lparr>calls := v15\<rparr>) = current ctx"
  by (simp_all add: current_def draw_state.defs)

lemma current_transform: "transform (current ctx) = transform ctx"
  by (simp add: current_def draw_state.defs)

lemma restore_current: "stack ctx = s # rest \<Longrightarrow> current (restore ctx) = s"
  by (simp add: restore_def current_def draw_state.defs CanvasRenderingContext2D.defs)

lemma restore_stack: "stack ctx = s # rest \<Longrightarrow> stack (restore ctx) = rest"
  by (simp add: restore_def current_def draw_state.defs CanvasRenderingContext2D.defs)

lemma restore_calls: "calls (restore ctx) = calls ctx"
  by (simp add: restore_def draw_state.defs CanvasRenderingContext2D.defs split: list.split)

lemmas op_defs = save_def translate_def rotate_ctx_def strokeText_def fillText_def
  stroke_def arc_def beginPath_def clearRect_def

lemma drawBorder_current: "current (drawBorder this ctx radius col width style) = current ctx"
  by (simp add: drawBorder_def Let_def op_defs current_update restore_current dashes_stack)

lemma drawBorder_calls:
  "calls (drawBorder this ctx radius col width style) =
     calls ctx @
     (if style = Solid then
        [Stroke [Arc (Num 0) (Num 0) (Num radius) (Num 0) (Num (pi * 2))]
           ((current ctx)\<lparr>strokeStyle := col, lineWidth := Num width,
              shadowColor := js_str ''rgba(0, 0, 0, 0.08)'', shadowBlur := Num 2\<rparr>)]
      else
        map (\<lambda>k. Stroke [Arc (Num 0) (Num 0) (Num radius) (Num ((real (10 * k) * pi) / 180))
                        (Num (((real (10 * k) + 5) * pi) / 180))]
               ((current ctx)\<lparr>strokeStyle := col, lineWidth := Num width,
                  shadowColor := js_str ''rgba(0, 0, 0, 0.08)'', shadowBlur := Num 2\<rparr>))
          [0..<36]) @
     (if showInnerCircle this then
        [Stroke [Arc (Num 0) (Num 0) (Num (radius - 12)) (Num 0) (Num (pi * 2))]
           ((current ctx)\<lparr>strokeStyle := col, lineWidth := Num (max 2 (width * 0.5)),
              shadowBlur := Num 0\<rparr>)]
      else [])"
  by (simp add: drawBorder_def Let_def op_defs current_update restore_current restore_stack
        restore_calls dashes_stack dashes_calls dashes_current del: upt_Suc)


lemma drawChar_eq:
  "drawChar sa st r rr col i ch ctx =
     ctx\<lparr>calls := calls ctx @ glyphCalls (current ctx) sa st r rr col i ch\<rparr>"
  by (simp add: drawChar_def glyphCalls_def glyphState_def Let_def op_defs restore_def
        current_def draw_state.defs CanvasRenderingContext2D.defs)

lemma forEach_char_eq:
  "forEach_char sa st r rr col i chars ctx =
     ctx\<lparr>calls := calls ctx @
       concat (map (\<lambda>k. glyphCalls (current ctx) sa st r rr col (i + k) (chars ! k))
                 [0..<length chars])\<rparr>"
proof (induction chars arbitrary: i ctx)
  case Nil
  show ?case by simp
next
  case (Cons c cs)
  have upt: "[0..<Suc n] = 0 # map Suc [0..<n]" for n
    by (simp add: upt_conv_Cons map_Suc_upt del: upt_Suc)
  show ?case
    by (simp add: Cons drawChar_eq current_update upt comp_def del: upt_Suc)
qed

lemma drawStar_current: "current (drawStar ctx x y sz col) = current ctx"
  by (simp add: drawStar_def Let_def op_defs current_update restore_current)

lemma drawStar_calls:
  "calls (drawStar ctx x y sz col) =
     calls ctx @
     [FillText star (Num x) (Num y)
        ((current ctx)\<lparr>font := Font True sz ''SimHei'', textAlign := ''center'',
           textBaseline := ''middle'', shadowColor := js_str ''rgba(0, 0, 0, 0.12)'',
           shadowBlur := Num 2, fillStyle := col\<rparr>),
      StrokeText star (Num x) (Num y)
        ((current ctx)\<lparr>font := Font True sz ''SimHei'', textAlign := ''center'',
           textBaseline := ''middle'', shadowColor := js_str ''rgba(0, 0, 0, 0.12)'',
           fillStyle := col, lineWidth := Num 2,
           strokeStyle := js_str ''#a00000'', shadowBlur := Num 0\<rparr>)]"
  by (simp add: drawStar_def Let_def op_defs current_update restore_calls)

lemma drawCompanyName_calls:
  "calls (drawCompanyName ctx text radius fontSize col radiusRatio) =
     calls ctx @
     concat (map (\<lambda>k. glyphCalls
                    ((current ctx)\<lparr>font := Font True fontSize ''SimHei'', fillStyle := col,
                       textAlign := ''center'', textBaseline := ''middle''\<rparr>)
                    companyStartAngle (companyAngleStep (split_chars text)) radius radiusRatio
                    col k [text ! k])
               [0..<length text])"
proof -
  have len: "length (split_chars text) = length text"
    by (simp add: split_chars_def)
  have eq: "map (\<lambda>k. glyphCalls s companyStartAngle st radius radiusRatio col k
               (split_chars text ! k)) [0..<length text] =
        map (\<lambda>k. glyphCalls s companyStartAngle st radius radiusRatio col k [text ! k])
          [0..<length text]" for s st
    by (rule map_cong) (simp_all add: split_chars_def)
  show ?thesis
    by (simp add: drawCompanyName_def Let_def forEach_char_eq current_update len)
       (simp only: eq)
qed

lemma drawTitle_calls:
  "calls (drawTitle ctx text radius fontSize col radiusRatio) =
     calls ctx @
     [FillText text (Num 0) (Num (radius * radiusRatio))
        ((current ctx)\<lparr>font := Font False fontSize ''SimHei'', fillStyle := col,
           textAlign := ''center'', textBaseline := ''middle'',
           shadowColor := js_str ''rgba(0, 0, 0, 0.1)'', shadowBlur := Num 2,
           shadowOffsetX := Num 1, shadowOffsetY := Num 1\<rparr>)]"
  by (simp add: drawTitle_def Let_def op_defs current_update)


lemma drawCompanyName_current:
  "current (drawCompanyName ctx text radius fontSize col radiusRatio) =
     (current ctx)\<lparr>font := Font True fontSize ''SimHei'', fillStyle := col,
        textAlign := ''center'', textBaseline := ''middle''\<rparr>"
  by (simp add: drawCompanyName_def Let_def forEach_char_eq current_update)

lemma filter_glyphCalls:
  "filter isStroke (glyphCalls s sa st r rr col i ch) = []"
  "filter isText (glyphCalls s sa st r rr col i ch) = glyphCalls s sa st r rr col i ch"
  by (simp_all add: glyphCalls_def Let_def)

lemma filter_concat_glyphs:
  "filter isStroke (concat (map (\<lambda>k. glyphCalls s sa st r rr col k (f k)) ks)) = []"
  "filter isText (concat (map (\<lambda>k. glyphCalls s sa st r rr col k (f k)) ks)) =
     concat (map (\<lambda>k. glyphCalls s sa st r rr col k (f k)) ks)"
  by (induction ks) (simp_all add: filter_glyphCalls)

lemma draw_calls:
  "calls (draw this) =
     ClearRect (Num 0) (Num 0) (Num (size_px this)) (Num (size_px this)) #
     drop 1 (calls (drawBorder this
        (rotate_ctx (Num ((rotation this * pi) / 180))
          (translate (Num (size_px this / 2)) (Num (size_px this / 2))
            ((clearRect (Num 0) (Num 0) (Num (size_px this)) (Num (size_px this)) getContext)
               \<lparr>globalAlpha := Num (opacity this)\<rparr>)))
        (size_px this / 2 - 20) (color this) (borderWidth this) (borderStyle this))) @
     [FillText star (Num 0) (Num 0)
        ((prepared this)\<lparr>font := Font True (starSize this) ''SimHei'', textAlign := ''center'',
           textBaseline := ''middle'', shadowColor := js_str ''rgba(0, 0, 0, 0.12)'',
           shadowBlur := Num 2, fillStyle := color this\<rparr>),
      StrokeText star (Num 0) (Num 0)
        ((prepared this)\<lparr>font := Font True (starSize this) ''SimHei'', textAlign := ''center'',
           textBaseline := ''middle'', shadowColor := js_str ''rgba(0, 0, 0, 0.12)'',
           fillStyle := color this, lineWidth := Num 2,
           strokeStyle := js_str ''#a00000'', shadowBlur := Num 0\<rparr>)] @
     concat (map (\<lambda>k. glyphCalls
                    ((prepared this)\<lparr>font := Font True (companyFontSize this) ''SimHei'',
                       fillStyle := color this,
                       textAlign := ''center'', textBaseline := ''middle''\<rparr>)
                    companyStartAngle (companyAngleStep (split_chars (company this)))
                    (size_px this / 2 - 20) (companyRadiusRatio this)
                    (color this) k [company this ! k])
               [0..<length (company this)]) @
     [FillText (title this) (Num 0) (Num ((size_px this / 2 - 20) * titleRadiusRatio this))
        ((prepared this)\<lparr>font := Font False (titleFontSize this) ''SimHei'',
           fillStyle := color this,
           textAlign := ''center'', textBaseline := ''middle'',
           shadowColor := js_str ''rgba(0, 0, 0, 0.1)'', shadowBlur := Num 2,
           shadowOffsetX := Num 1, shadowOffsetY := Num 1\<rparr>)]"
  apply (simp add: draw_def Let_def drawTitle_calls drawCompanyName_calls drawCompanyName_current
       drawStar_calls drawStar_current drawBorder_current drawBorder_calls prepared_def
       del: upt_Suc)
  apply (simp add: op_defs current_update getContext_def del: upt_Suc)
  apply (simp add: current_def draw_state.defs del: upt_Suc)
  done

lemma filter_map_Stroke: "filter isStroke (map (\<lambda>k. Stroke (p k) s) ks) = map (\<lambda>k. Stroke (p k) s) ks"
  "filter isText (map (\<lambda>k. Stroke (p k) s) ks) = []"
  by (induction ks) simp_all

lemma draw_strokes:
  "filter isStroke (calls (draw this)) =
     (if borderStyle this = Solid then
        [Stroke [Arc (Num 0) (Num 0) (Num (size_px this / 2 - 20)) (Num 0) (Num (pi * 2))]
           (borderState this)]
      else
        map (\<lambda>k. Stroke [Arc (Num 0) (Num 0) (Num (size_px this / 2 - 20))
                          (Num ((real (10 * k) * pi) / 180))
                          (Num (((real (10 * k) + 5) * pi) / 180))] (borderState this))
          [0..<36]) @
     (if showInnerCircle this then
        [Stroke [Arc (Num 0) (Num 0) (Num (size_px this / 2 - 20 - 12)) (Num 0) (Num (pi * 2))]
           (innerState this)]
      else [])"
proof -
  let ?ctx = "rotate_ctx (Num ((rotation this * pi) / 180))
          (translate (Num (size_px this / 2)) (Num (size_px this / 2))
            ((clearRect (Num 0) (Num 0) (Num (size_px this)) (Num (size_px this)) getContext)
               \<lparr>globalAlpha := Num (opacity this)\<rparr>))"
  have cur: "current ?ctx = prepared this"
    by (simp add: op_defs current_update prepared_def getContext_def)
       (simp add: current_def draw_state.defs)
  have cs: "calls ?ctx = [ClearRect (Num 0) (Num 0) (Num (size_px this)) (Num (size_px this))]"
    by (simp add: op_defs getContext_def)
  show ?thesis
    unfolding draw_calls drawBorder_calls cur cs
    by (simp add: filter_concat_glyphs filter_map_Stroke borderState_def innerState_def
          del: upt_Suc)
qed

lemma draw_texts:
  "filter isText (calls (draw this)) =
     [FillText star (Num 0) (Num 0)
        ((prepared this)\<lparr>font := Font True (starSize this) ''SimHei'', textAlign := ''center'',
           textBaseline := ''middle'', shadowColor := js_str ''rgba(0, 0, 0, 0.12)'',
           shadowBlur := Num 2, fillStyle := color this\<rparr>),
      StrokeText star (Num 0) (Num 0)
        ((prepared this)\<lparr>font := Font True (starSize this) ''SimHei'', textAlign := ''center'',
           textBaseline := ''middle'', shadowColor := js_str ''rgba(0, 0, 0, 0.12)'',
           fillStyle := color this, lineWidth := Num 2,
           strokeStyle := js_str ''#a00000'', shadowBlur := Num 0\<rparr>)] @
     concat (map (\<lambda>k. glyphCalls
                    ((prepared this)\<lparr>font := Font True (companyFontSize this) ''SimHei'',
                       fillStyle := color this,
                       textAlign := ''center'', textBaseline := ''middle''\<rparr>)
                    companyStartAngle (companyAngleStep (split_chars (company this)))
                    (size_px this / 2 - 20) (companyRadiusRatio this)
                    (color this) k [company this ! k])
               [0..<length (company this)]) @
     [FillText (title this) (Num 0) (Num ((size_px this / 2 - 20) * titleRadiusRatio this))
        ((prepared this)\<lparr>font := Font False (titleFontSize this) ''SimHei'',
           fillStyle := color this,
           textAlign := ''center'', textBaseline := ''middle'',
           shadowColor := js_str ''rgba(0, 0, 0, 0.1)'', shadowBlur := Num 2,
           shadowOffsetX := Num 1, shadowOffsetY := Num 1\<rparr>)]"
proof -
  let ?ctx = "rotate_ctx (Num ((rotation this * pi) / 180))
          (translate (Num (size_px this / 2)) (Num (size_px this / 2))
            ((clearRect (Num 0) (Num 0) (Num (size_px this)) (Num (size_px this)) getContext)
               \<lparr>globalAlpha := Num (opacity this)\<rparr>))"
  have cs: "calls ?ctx = [ClearRect (Num 0) (Num 0) (Num (size_px this)) (Num (size_px this))]"
    by (simp add: op_defs getContext_def)
  show ?thesis
    unfolding draw_calls drawBorder_calls cs
    by (simp add: filter_concat_glyphs filter_map_Stroke del: upt_Suc)
qed

lemma concat_pairs_length:
  "length (concat (map (\<lambda>k. [a k, b k]) [0..<n])) = 2 * n"
  by (induction n) simp_all

lemma concat_pairs_drop:
  "i < n \<Longrightarrow> take 2 (drop (2 * i) (concat (map (\<lambda>k. [a k, b k]) [0..<n]))) = [a i, b i]"
proof (induction n)
  case 0
  then show ?case by simp
next
  case (Suc n)
  show ?case
  proof (cases "i < n")
    case True
    then have "2 * i + 2 \<le> 2 * n" by simp
    with Suc.IH [OF True] show ?thesis
      by (simp add: concat_pairs_length)
  next
    case False
    with Suc.prems have "i = n" by simp
    then show ?thesis by (simp add: concat_pairs_length)
  qed
qed

lemma glyphCalls_pair:
  "glyphCalls s sa st r rr col i ch =
     [StrokeText ch (Num 0) (Num 0)
        (glyphState s col (Num r * Num rr * Math_cos (glyphAngle sa st i))
           (Num r * Num rr * Math_sin (glyphAngle sa st i))
           (glyphAngle sa st i + Num pi / Num 2)),
      FillText ch (Num 0) (Num 0)
        (glyphState s col (Num r * Num rr * Math_cos (glyphAngle sa st i))
           (Num r * Num rr * Math_sin (glyphAngle sa st i))
           (glyphAngle sa st i + Num pi / Num 2))]"
  by (simp add: glyphCalls_def Let_def)

lemma step_finite:
  "2 \<le> length text \<Longrightarrow>
     companyAngleStep (split_chars text) = Num (240 / (real (length text) - 1))"
  by (simp add: companyAngleStep_def split_chars_def)

lemma glyphAngle_finite:
  "glyphAngle sa (Num st) i = Num (((sa + real i * st) * pi) / 180)"
  by (simp add: glyphAngle_def)

section \<open>The frame of the aging filter\<close>

lemma nth_store: "m \<noteq> j \<Longrightarrow> store data j v ! m = data ! m"
  by (simp add: store_def)

lemma globalFade_frame:
  assumes "m < i \<or> i + 2 < m"
  shows "globalFade strength i data ! m = data ! m"
proof -
  from assms have ne: "m \<noteq> i" "m \<noteq> i + 1" "m \<noteq> i + 2" by auto
  show ?thesis
    unfolding globalFade_def Let_def by (simp only: nth_store ne not_False_eq_True)
qed

lemma grainNoise_frame:
  assumes "m < i \<or> i + 2 < m"
  shows "fst (grainNoise strength rnd i dk) ! m = fst dk ! m"
proof -
  obtain data k where dk: "dk = (data, k)" by (cases dk)
  from assms have ne: "m \<noteq> i" "m \<noteq> i + 1" "m \<noteq> i + 2" by auto
  show ?thesis
    unfolding dk grainNoise_def Let_def prod.case fst_conv
    by (simp only: nth_store ne not_False_eq_True)
qed

lemma edgeErosion_frame:
  assumes "m < i \<or> i + 3 < m"
  shows "fst (edgeErosion strength distance radius rnd i dk) ! m = fst dk ! m"
proof -
  obtain data k where dk: "dk = (data, k)" by (cases dk)
  from assms have ne: "m \<noteq> i" "m \<noteq> i + 1" "m \<noteq> i + 2" "m \<noteq> i + 3" by auto
  show ?thesis
    unfolding dk edgeErosion_def Let_def prod.case
    by (simp only: if_distrib [of fst] if_distrib [of "\<lambda>d. d ! m"] fst_conv nth_store ne
          not_False_eq_True if_cancel)
qed

lemma localFade_frame:
  assumes "m < i \<or> i + 3 < m"
  shows "fst (localFade areas rnd x y i dk) ! m = fst dk ! m"
proof (induction areas arbitrary: dk)
  case Nil
  show ?case by simp
next
  case (Cons a areas)
  obtain data k where dk: "dk = (data, k)" by (cases dk)
  from assms have ne: "m \<noteq> i" "m \<noteq> i + 1" "m \<noteq> i + 2" "m \<noteq> i + 3" by auto
  show ?case
    unfolding dk localFade.simps prod.case Let_def
    by (simp only: if_distrib [of fst] if_distrib [of "\<lambda>d. d ! m"] Cons.IH fst_conv nth_store ne
          not_False_eq_True if_cancel)
qed

lemma alphaJitter_frame:
  "m \<noteq> i + 3 \<Longrightarrow> fst (alphaJitter rnd i dk) ! m = fst dk ! m"
  unfolding alphaJitter_def by (cases dk) (simp add: nth_store)

lemma agePixel_frame:
  assumes "m < i \<or> i + 3 < m"
  shows "fst (agePixel sz cx cy radius strength areas rnd i dk) ! m = fst dk ! m"
proof -
  obtain data k where dk: "dk = (data, k)" by (cases dk)
  from assms have m2: "m < i \<or> i + 2 < m" and m3: "m \<noteq> i + 3" by auto
  show ?thesis
    unfolding dk agePixel_def Let_def prod.case
    by (simp only: if_distrib [of fst] if_distrib [of "\<lambda>d. d ! m"]
          alphaJitter_frame [OF m3] localFade_frame [OF assms]
          edgeErosion_frame [OF assms] grainNoise_frame [OF m2] globalFade_frame [OF m2]
          fst_conv if_cancel)
qed

lemma agePixel_transparent:
  assumes "\<not> (i + 3 < length (fst dk) \<and> 0 < fst dk ! (i + 3))"
  shows "agePixel sz cx cy radius strength areas rnd i dk = dk"
proof -
  obtain data k where dk: "dk = (data, k)" by (cases dk)
  from assms have "\<not> (i + 3 < length data \<and> 0 < data ! (i + 3))"
    by (simp add: dk)
  then show ?thesis
    unfolding dk agePixel_def Let_def prod.case by (simp only: if_False)
qed

lemma agingLoop_step:
  "i < length (fst dk) \<Longrightarrow>
     agingLoop sz cx cy radius strength areas rnd i dk =
     agingLoop sz cx cy radius strength areas rnd (i + 4)
       (agePixel sz cx cy radius strength areas rnd i dk)"
  by (subst agingLoop.simps) (simp only: if_True)

lemma agingLoop_stop:
  "\<not> i < length (fst dk) \<Longrightarrow> agingLoop sz cx cy radius strength areas rnd i dk = dk"
  by (subst agingLoop.simps) (simp only: if_False)

lemma agingLoop_transparent:
  assumes "i mod 4 = 0" "fst dk ! (4 * p + 3) = 0" "c < 4"
  shows "fst (agingLoop sz cx cy radius strength areas rnd i dk) ! (4 * p + c) =
           fst dk ! (4 * p + c)"
  using assms
proof (induction "length (fst dk) - i" arbitrary: i dk rule: less_induct)
  case less
  show ?case
  proof (cases "i < length (fst dk)")
    case False
    then show ?thesis by (simp add: agingLoop_stop)
  next
    case True
    let ?dk = "agePixel sz cx cy radius strength areas rnd i dk"
    have len: "length (fst ?dk) = length (fst dk)"
      by (rule length_agePixel)
    have same: "fst ?dk ! (4 * p + e) = fst dk ! (4 * p + e)" if "e < 4" for e
    proof (cases "i = 4 * p")
      case True
      with less.prems have "agePixel sz cx cy radius strength areas rnd i dk = dk"
        by (intro agePixel_transparent) simp
      then show ?thesis by simp
    next
      case False
      with less.prems(1) that have "4 * p + e < i \<or> i + 3 < 4 * p + e"
        by presburger
      then show ?thesis by (rule agePixel_frame)
    qed
    have "fst (agingLoop sz cx cy radius strength areas rnd (i + 4) ?dk) ! (4 * p + c) =
            fst ?dk ! (4 * p + c)"
    proof (rule less.hyps)
      show "length (fst ?dk) - (i + 4) < length (fst dk) - i"
        using True len by simp
      show "(i + 4) mod 4 = 0" using less.prems(1) by simp
      show "fst ?dk ! (4 * p + 3) = 0" using same [of 3] less.prems(2) by simp
      show "c < 4" by fact
    qed
    with same [OF less.prems(3)] show ?thesis
      by (simp add: agingLoop_step [OF True])
  qed
qed

lemma length_agingLoop:
  "length (fst (agingLoop sz cx cy radius strength areas rnd i dk)) = length (fst dk)"
proof (induction "length (fst dk) - i" arbitrary: i dk rule: less_induct)
  case less
  show ?case
  proof (cases "i < length (fst dk)")
    case False
    then show ?thesis by (simp add: agingLoop_stop)
  next
    case True
    let ?dk = "agePixel sz cx cy radius strength areas rnd i dk"
    have len: "length (fst ?dk) = length (fst dk)"
      by (rule length_agePixel)
    have "length (fst ?dk) - (i + 4) < length (fst dk) - i"
      using True len by simp
    from less [OF this] show ?thesis
      by (simp add: agingLoop_step [OF True] len)
  qed
qed

lemma snd_fadeAreas: "snd (fadeAreas cx cy radius rnd) = 10"
  by (simp add: fadeAreas_def makeFadeArea_def Let_def)

lemma addAgingEffect_loop:
  "addAgingEffect sz strength rnd data =
     agingLoop sz (sz / 2) (sz / 2) (sz / 2 - 20) strength
       (fst (fadeAreas (sz / 2) (sz / 2) (sz / 2 - 20) rnd)) rnd 0 (data, 10)"
  by (simp add: addAgingEffect_def Let_def split_beta snd_fadeAreas)

section \<open>The aging filter at strength 0\<close>

























section \<open>Configuration resolution\<close>

text \<open>
  C3. An explicitly set opacity of 0 is not preserved: \<open>options.opacity || 1.0\<close> takes
  the default for every falsy value, so the caller's \<open>opacity = 0\<close> resolves to \<open>1\<close>,
  while \<open>agingStrength = 0\<close>, resolved with \<open>!== undefined\<close>, is kept.
\<close>

theorem constructor_opacity_zero_lost:
  "opacity (new_SealGenerator (no_options\<lparr>opt_opacity := Some 0\<rparr>)) = 1
   \<and> agingStrength (new_SealGenerator (no_options\<lparr>opt_agingStrength := Some 0\<rparr>)) = 0"
  by (simp add: new_SealGenerator_def no_options_def or_num_def defined_or_def)


section \<open>The company name on its arc\<close>

text \<open>
  C1. A company name of one code unit: \<open>chars.length - 1\<close> is 0, so the angle step
  \<open>240 / 0\<close> is \<open>Infinity\<close>, \<open>0 * Infinity\<close> is \<open>NaN\<close>, and the angle of the only glyph, both
  coordinates passed to \<open>translate\<close> and the angle passed to \<open>rotate\<close> are \<open>NaN\<close>, for every
  radius and ratio. The glyph is not placed at -90 degrees.
\<close>

theorem single_char_company_is_NaN:
  "companyAngleStep (split_chars [c]) = PosInf
   \<and> \<not> is_finite (companyAngleStep (split_chars [c]))
   \<and> glyphAngle companyStartAngle (companyAngleStep (split_chars [c])) 0 = NaN
   \<and> \<not> is_finite (glyphAngle companyStartAngle (companyAngleStep (split_chars [c])) 0)
   \<and> (\<exists>gs. calls (drawCompanyName ctx [c] radius fontSize col radiusRatio) =
          calls ctx @ [StrokeText [c] (Num 0) (Num 0) gs, FillText [c] (Num 0) (Num 0) gs]
        \<and> transform gs = transform ctx @ [Translate NaN NaN, Rotate NaN])"
proof -
  have step: "companyAngleStep (split_chars [c]) = PosInf"
    by (simp add: companyAngleStep_def split_chars_def)
  have ang: "glyphAngle companyStartAngle PosInf 0 = NaN"
    by (simp add: glyphAngle_def)
  have "calls (drawCompanyName ctx [c] radius fontSize col radiusRatio) =
          calls ctx @
          [StrokeText [c] (Num 0) (Num 0)
             (glyphState
                ((current ctx)\<lparr>font := Font True fontSize ''SimHei'', fillStyle := col,
                   textAlign := ''center'', textBaseline := ''middle''\<rparr>)
                col NaN NaN NaN),
           FillText [c] (Num 0) (Num 0)
             (glyphState
                ((current ctx)\<lparr>font := Font True fontSize ''SimHei'', fillStyle := col,
                   textAlign := ''center'', textBaseline := ''middle''\<rparr>)
                col NaN NaN NaN)]"
    unfolding drawCompanyName_calls glyphCalls_pair step
    by (simp add: ang)
  moreover have "transform (glyphState
                ((current ctx)\<lparr>font := Font True fontSize ''SimHei'', fillStyle := col,
                   textAlign := ''center'', textBaseline := ''middle''\<rparr>)
                col NaN NaN NaN) = transform ctx @ [Translate NaN NaN, Rotate NaN]"
    by (simp add: glyphState_def current_transform)
  ultimately show ?thesis
    using step ang by auto
qed

text \<open>
  C5. A company name of \<open>n\<close> code units, \<open>n\<close> at least 2: the step is \<open>240 / (n - 1)\<close>
  degrees, the first glyph stands at -210 degrees and the last at 30 degrees, and glyph
  \<open>i\<close>, at \<open>\<theta> = -210 + i * 240 / (n - 1)\<close> degrees, is the pair of calls \<open>strokeText\<close> and
  \<open>fillText\<close> made after \<open>translate(radius * ratio * cos \<theta>, radius * ratio * sin \<theta>)\<close> and
  \<open>rotate(\<theta> + 90 degrees)\<close>, the angles in radians. There are \<open>2 * n\<close> calls in all.
\<close>

theorem company_arc_layout:
  assumes "2 \<le> length text"
  shows "companyAngleStep (split_chars text) = Num (240 / (real (length text) - 1))
    \<and> glyphAngle companyStartAngle (companyAngleStep (split_chars text)) 0 =
        Num ((- 210 * pi) / 180)
    \<and> glyphAngle companyStartAngle (companyAngleStep (split_chars text)) (length text - 1) =
        Num ((30 * pi) / 180)
    \<and> length (calls (drawCompanyName ctx text radius fontSize col radiusRatio)) =
        length (calls ctx) + 2 * length text
    \<and> (\<forall>i<length text. \<exists>gs.
          take 2 (drop (length (calls ctx) + 2 * i)
            (calls (drawCompanyName ctx text radius fontSize col radiusRatio))) =
            [StrokeText [text ! i] (Num 0) (Num 0) gs, FillText [text ! i] (Num 0) (Num 0) gs]
          \<and> transform gs = transform ctx @
              [Translate
                 (Num (radius * radiusRatio *
                    cos (((- 210 + real i * (240 / (real (length text) - 1))) * pi) / 180)))
                 (Num (radius * radiusRatio *
                    sin (((- 210 + real i * (240 / (real (length text) - 1))) * pi) / 180))),
               Rotate
                 (Num (((- 210 + real i * (240 / (real (length text) - 1)) + 90) * pi) / 180))])"
proof -
  let ?n = "length text"
  let ?st = "240 / (real ?n - 1)"
  have step: "companyAngleStep (split_chars text) = Num ?st"
    using assms by (rule step_finite)
  have first: "glyphAngle companyStartAngle (Num ?st) 0 = Num ((- 210 * pi) / 180)"
    by (simp add: glyphAngle_finite companyStartAngle_def)
  have "real ?n - 1 \<noteq> 0"
    using assms by simp
  moreover have "real (?n - 1) = real ?n - 1"
    using assms by (simp add: of_nat_diff)
  moreover have "x * (240 / x) = 240" if "x \<noteq> 0" for x :: real
    using that by simp
  ultimately have full: "real (?n - 1) * ?st = 240"
    by (simp only:)
  have "glyphAngle companyStartAngle (Num ?st) (?n - 1) =
          Num (((- 90 - 240 / 2 + 240) * pi) / 180)"
    by (simp only: glyphAngle_finite companyStartAngle_def full)
  also have "(- 90 - 240 / 2 + 240 :: real) = 30"
    by simp
  finally have last: "glyphAngle companyStartAngle (Num ?st) (?n - 1) = Num ((30 * pi) / 180)" .
  have len: "length (calls (drawCompanyName ctx text radius fontSize col radiusRatio)) =
        length (calls ctx) + 2 * ?n"
    unfolding drawCompanyName_calls glyphCalls_pair
    by (simp add: concat_pairs_length)
  have glyphs: "\<exists>gs.
          take 2 (drop (length (calls ctx) + 2 * i)
            (calls (drawCompanyName ctx text radius fontSize col radiusRatio))) =
            [StrokeText [text ! i] (Num 0) (Num 0) gs, FillText [text ! i] (Num 0) (Num 0) gs]
          \<and> transform gs = transform ctx @
              [Translate
                 (Num (radius * radiusRatio *
                    cos (((- 210 + real i * ?st) * pi) / 180)))
                 (Num (radius * radiusRatio *
                    sin (((- 210 + real i * ?st) * pi) / 180))),
               Rotate
                 (Num (((- 210 + real i * ?st + 90) * pi) / 180))]"
    if i: "i < ?n" for i
  proof -
    define th where "th = ((- 210 + real i * ?st) * pi) / 180"
    have ang: "glyphAngle companyStartAngle (Num ?st) i = Num th"
      by (simp add: glyphAngle_finite companyStartAngle_def th_def)
    have "(d * pi) / 180 + pi / 2 = ((d + 90) * pi) / 180" for d :: real
      by (simp add: add_divide_distrib distrib_right)
    then have "th + pi / 2 = ((- 210 + real i * ?st + 90) * pi) / 180"
      unfolding th_def .
    then have rot: "Num th + Num pi / Num 2 = Num (((- 210 + real i * ?st + 90) * pi) / 180)"
      by simp
    have pos: "Num radius * Num radiusRatio * Math_cos (Num th) = Num (radius * radiusRatio * cos th)"
      "Num radius * Num radiusRatio * Math_sin (Num th) = Num (radius * radiusRatio * sin th)"
      by simp_all
    show ?thesis
      unfolding drawCompanyName_calls glyphCalls_pair step
      apply (simp only: drop_append length_drop diff_add_inverse drop_all [OF le_add1] append_Nil
          concat_pairs_drop [OF i])
      apply (simp only: ang)
      apply (simp only: rot pos)
      apply (simp add: glyphState_def current_update current_transform)
      apply (simp add: th_def)
      done
  qed
  from step first last len glyphs show ?thesis
    by simp
qed

theorem company_arc_layout_witness:
  "2 \<le> length [0x41, 0x42 :: 16 word]
   \<and> companyAngleStep (split_chars [0x41, 0x42]) = Num 240
   \<and> glyphAngle companyStartAngle (companyAngleStep (split_chars [0x41, 0x42])) 0 =
       Num ((- 210 * pi) / 180)
   \<and> glyphAngle companyStartAngle (companyAngleStep (split_chars [0x41, 0x42])) 1 =
       Num ((30 * pi) / 180)
   \<and> length (calls (drawCompanyName getContext [0x41, 0x42] 206 60 (js_str ''#d20000'')
         (3 / 4))) = 4"
proof -
  have h: "2 \<le> length [0x41, 0x42 :: 16 word]"
    by simp
  note t = company_arc_layout [OF h, of getContext 206 60 "js_str ''#d20000''" "3 / 4"]
  have "companyAngleStep (split_chars [0x41, 0x42]) = Num 240"
    using t [THEN conjunct1] by simp
  moreover have "glyphAngle companyStartAngle (companyAngleStep (split_chars [0x41, 0x42])) 0 =
       Num ((- 210 * pi) / 180)"
    using t [THEN conjunct2, THEN conjunct1] by simp
  moreover have "glyphAngle companyStartAngle (companyAngleStep (split_chars [0x41, 0x42])) 1 =
       Num ((30 * pi) / 180)"
    using t [THEN conjunct2, THEN conjunct2, THEN conjunct1] by simp
  moreover have "length (calls (drawCompanyName getContext [0x41, 0x42] 206 60
       (js_str ''#d20000'') (3 / 4))) = 4"
    using t [THEN conjunct2, THEN conjunct2, THEN conjunct2, THEN conjunct1]
    by (simp add: getContext_def)
  ultimately show ?thesis
    using h by blast
qed

section \<open>The border\<close>

text \<open>
  C8. With \<open>borderStyle\<close> dashed, the strokes of a rendering are 36 arcs of the border
  radius, arc \<open>k\<close> from \<open>10 * k\<close> degrees to \<open>10 * k + 5\<close> degrees (0, 10, ..., 350), each a
  path and a stroke of its own, in the border's colour, width and shadow blur 2, followed
  by the inner circle when \<open>showInnerCircle\<close> is set and by nothing else.
\<close>

theorem dashed_border_36_segments:
  "\<exists>bs cs. filter isStroke (calls (draw (this\<lparr>borderStyle := Dashed\<rparr>))) =
          map (\<lambda>k. Stroke [Arc (Num 0) (Num 0) (Num (size_px this / 2 - 20))
                            (Num ((real (10 * k) * pi) / 180))
                            (Num (((real (10 * k) + 5) * pi) / 180))] bs)
            [0..<36] @
          (if showInnerCircle this then
             [Stroke [Arc (Num 0) (Num 0) (Num (size_px this / 2 - 20 - 12)) (Num 0)
                        (Num (pi * 2))] cs]
           else [])
        \<and> strokeStyle bs = color this \<and> lineWidth bs = Num (borderWidth this)
        \<and> shadowBlur bs = Num 2"
  apply (rule exI [where x = "borderState (this\<lparr>borderStyle := Dashed\<rparr>)"])
  apply (rule exI [where x = "innerState (this\<lparr>borderStyle := Dashed\<rparr>)"])
  apply (simp add: draw_strokes borderState_def prepared_def del: upt_Suc)
  done

text \<open>
  C9. With \<open>showInnerCircle\<close> set, the strokes of a rendering are those of the same
  configuration without it, followed by one stroke more: the full circle of the border
  radius minus 12, with line width \<open>max(2, borderWidth * 0.5)\<close> and shadow blur 0, whatever
  the border style is.
\<close>

theorem inner_circle_one_more_stroke:
  "\<exists>cs. filter isStroke (calls (draw (this\<lparr>showInnerCircle := True\<rparr>))) =
          filter isStroke (calls (draw (this\<lparr>showInnerCircle := False\<rparr>))) @
          [Stroke [Arc (Num 0) (Num 0) (Num (size_px this / 2 - 20 - 12)) (Num 0) (Num (pi * 2))]
             cs]
        \<and> lineWidth cs = Num (max 2 (borderWidth this * 0.5))
        \<and> shadowBlur cs = Num 0 \<and> strokeStyle cs = color this"
  by (rule exI [where x = "innerState (this\<lparr>showInnerCircle := True\<rparr>)"])
     (simp add: draw_strokes borderState_def innerState_def prepared_def del: upt_Suc)

section \<open>An empty company name\<close>

text \<open>
  C4, as the code has it. \<open>drawCompanyName\<close> on an empty text makes no draw call, and a
  rendering whose resolved company is empty draws text three times only: the star, filled
  and stroked, and the title. The constructor never resolves to an empty company:
  \<open>options.company || ...\<close> replaces an empty string by the default name, and the
  rendering draws its four glyphs, in eight calls.
\<close>

theorem empty_company_draws_no_glyph:
  "calls (drawCompanyName ctx [] radius fontSize col radiusRatio) = calls ctx
   \<and> (\<exists>s1 s2 s3. filter isText (calls (draw (this\<lparr>company := []\<rparr>))) =
         [FillText star (Num 0) (Num 0) s1, StrokeText star (Num 0) (Num 0) s2,
          FillText (title this) (Num 0)
            (Num ((size_px this / 2 - 20) * titleRadiusRatio this)) s3])
   \<and> company (new_SealGenerator (options\<lparr>opt_company := Some []\<rparr>)) = default_company
   \<and> length (filter isText
         (calls (draw (new_SealGenerator (options\<lparr>opt_company := Some []\<rparr>))))) = 11"
proof -
  have a: "calls (drawCompanyName ctx [] radius fontSize col radiusRatio) = calls ctx"
    by (simp add: drawCompanyName_calls)
  have b: "\<exists>s1 s2 s3. filter isText (calls (draw (this\<lparr>company := []\<rparr>))) =
         [FillText star (Num 0) (Num 0) s1, StrokeText star (Num 0) (Num 0) s2,
          FillText (title this) (Num 0)
            (Num ((size_px this / 2 - 20) * titleRadiusRatio this)) s3]"
    by (simp add: draw_texts)
  have c: "company (new_SealGenerator (options\<lparr>opt_company := Some []\<rparr>)) = default_company"
    by (simp add: new_SealGenerator_def or_str_def)
  have "length (filter isText
         (calls (draw (new_SealGenerator (options\<lparr>opt_company := Some []\<rparr>))))) =
        3 + 2 * length (company (new_SealGenerator (options\<lparr>opt_company := Some []\<rparr>)))"
    unfolding draw_texts glyphCalls_pair
    by (simp add: concat_pairs_length)
  then have d: "length (filter isText
         (calls (draw (new_SealGenerator (options\<lparr>opt_company := Some []\<rparr>))))) = 11"
    by (simp add: c default_company_def)
  from a b c d show ?thesis by blast
qed

theorem empty_company_option_counterexample:
  "map text_of (filter isText
     (calls (draw (new_SealGenerator (no_options\<lparr>opt_company := Some []\<rparr>))))) =
   [star, star, [0x6D4B], [0x6D4B], [0x8BD5], [0x8BD5], [0x516C], [0x516C],
    [0x53F8], [0x53F8], js_str '' '']"
proof -
  have c: "company (new_SealGenerator (no_options\<lparr>opt_company := Some []\<rparr>)) =
      [0x6D4B, 0x8BD5, 0x516C, 0x53F8]"
    by (simp add: new_SealGenerator_def or_str_def default_company_def)
  have t: "title (new_SealGenerator (no_options\<lparr>opt_company := Some []\<rparr>)) = js_str '' ''"
    by (simp add: new_SealGenerator_def or_str_def no_options_def js_str_def)
  have upt4: "[0..<4] = [0, 1, 2, 3]"
    by (simp add: upt_rec)
  show ?thesis
    unfolding draw_texts glyphCalls_pair c t
    by (simp add: upt4)
qed

section \<open>Rendering without aging\<close>

text \<open>
  C6. With \<open>aging\<close> false, \<open>generate\<close> makes no draw of \<open>Math.random()\<close>, and two runs of
  the same configuration write the same buffer, whatever the random source gives. The
  drawing functions take no random source at all; the surface's rasterisation and its PNG
  encoding are functions of the draw calls and of the pixels.
\<close>

theorem no_aging_is_deterministic:
  assumes "\<not> aging this"
  shows "generate getImageData toBuffer this rnd = generate getImageData toBuffer this rnd'
         \<and> snd (generate getImageData toBuffer this rnd) = 0"
  using assms by (simp add: generate_def)

theorem no_aging_is_deterministic_witness:
  "\<not> aging (new_SealGenerator (no_options\<lparr>opt_aging := Some False\<rparr>))
   \<and> generate (\<lambda>sz cs. [255, 0, 0, 255]) (\<lambda>pixels. pixels)
        (new_SealGenerator (no_options\<lparr>opt_aging := Some False\<rparr>)) (\<lambda>n. 0) =
     generate (\<lambda>sz cs. [255, 0, 0, 255]) (\<lambda>pixels. pixels)
        (new_SealGenerator (no_options\<lparr>opt_aging := Some False\<rparr>)) (\<lambda>n. 1 / 2)
   \<and> snd (generate (\<lambda>sz cs. [255, 0, 0, 255]) (\<lambda>pixels. pixels)
        (new_SealGenerator (no_options\<lparr>opt_aging := Some False\<rparr>)) (\<lambda>n. 0)) = 0"
proof -
  have h: "\<not> aging (new_SealGenerator (no_options\<lparr>opt_aging := Some False\<rparr>))"
    by (simp add: new_SealGenerator_def defined_or_def)
  from h no_aging_is_deterministic [OF h] show ?thesis
    by blast
qed

section \<open>The aging filter\<close>

text \<open>
  C7. A pixel \<open>p\<close> whose alpha is 0 before the pass keeps all four channels, for every
  buffer, size, strength and random source; the pass keeps the length of the buffer.
\<close>

theorem aging_keeps_transparent_pixels:
  assumes "4 * p + 3 < length data" "data ! (4 * p + 3) = 0" "c < 4"
  shows "fst (addAgingEffect sz strength rnd data) ! (4 * p + c) = data ! (4 * p + c)
         \<and> length (fst (addAgingEffect sz strength rnd data)) = length data"
proof -
  have "fst (data, 10 :: nat) ! (4 * p + 3) = 0"
    using assms(2) by simp
  with agingLoop_transparent [of 0 "(data, 10)" p c] assms(3)
  show ?thesis
    by (simp add: addAgingEffect_loop length_agingLoop)
qed

theorem aging_keeps_transparent_pixels_witness:
  "4 * 0 + 3 < length [10, 20, 30, 0, 200, 100, 50, 255, 0, 0, 0, 0, 1, 2, 3, (4::nat)]
   \<and> [10, 20, 30, 0, 200, 100, 50, 255, 0, 0, 0, 0, 1, 2, 3, (4::nat)] ! (4 * 0 + 3) = 0
   \<and> (1::nat) < 4
   \<and> fst (addAgingEffect 2 0.13 (\<lambda>n. 1 / 2)
        [10, 20, 30, 0, 200, 100, 50, 255, 0, 0, 0, 0, 1, 2, 3, 4]) ! 1 = 20"
  using aging_keeps_transparent_pixels
    [of 0 "[10, 20, 30, 0, 200, 100, 50, 255, 0, 0, 0, 0, 1, 2, 3, 4]" 1 2 "0.13" "\<lambda>n. 1 / 2"]
  by simp

text \<open>
  C2, as the code has it. In the band, the first draw decides the alpha erasure; the
  darkening of R, G and B is the \<open>else if\<close> of that check, decided by the second draw only
  when the erasure did not fire (when it fires, the second draw is the erasure factor). So
  the stage leaves R, G and B as they were or leaves alpha as it was: for no random source
  do both effects fire on one pixel. The stage makes two draws in the band, none outside.
\<close>

theorem edge_erosion_exclusive:
  assumes "i + 3 < length data"
  shows
  "(fst (edgeErosion strength distance radius rnd i (data, k)) ! i = data ! i
    \<and> fst (edgeErosion strength distance radius rnd i (data, k)) ! (i + 1) = data ! (i + 1)
    \<and> fst (edgeErosion strength distance radius rnd i (data, k)) ! (i + 2) = data ! (i + 2)
    \<or> fst (edgeErosion strength distance radius rnd i (data, k)) ! (i + 3) = data ! (i + 3))
   \<and> snd (edgeErosion strength distance radius rnd i (data, k)) =
       (if distance > radius - 8 \<and> distance < radius + 8 then k + 2 else k)
   \<and> (if distance > radius - 8 \<and> distance < radius + 8 \<and> rnd k < 0.13 * strength then
         fst (edgeErosion strength distance radius rnd i (data, k)) ! (i + 3) =
           ToUint8Clamp (real (data ! (i + 3)) * (0.5 + rnd (k + 1) * 0.3))
         \<and> fst (edgeErosion strength distance radius rnd i (data, k)) ! i = data ! i
         \<and> fst (edgeErosion strength distance radius rnd i (data, k)) ! (i + 1) = data ! (i + 1)
         \<and> fst (edgeErosion strength distance radius rnd i (data, k)) ! (i + 2) = data ! (i + 2)
       else fst (edgeErosion strength distance radius rnd i (data, k)) ! (i + 3) =
           data ! (i + 3))
   \<and> (if distance > radius - 8 \<and> distance < radius + 8 \<and> \<not> rnd k < 0.13 * strength
          \<and> rnd (k + 1) < 0.18 * strength then
         fst (edgeErosion strength distance radius rnd i (data, k)) ! i =
           ToUint8Clamp (real (data ! i) * 0.7)
         \<and> fst (edgeErosion strength distance radius rnd i (data, k)) ! (i + 1) =
           ToUint8Clamp (real (data ! (i + 1)) * 0.7)
         \<and> fst (edgeErosion strength distance radius rnd i (data, k)) ! (i + 2) =
           ToUint8Clamp (real (data ! (i + 2)) * 0.7)
       else fst (edgeErosion strength distance radius rnd i (data, k)) ! i = data ! i
         \<and> fst (edgeErosion strength distance radius rnd i (data, k)) ! (i + 1) = data ! (i + 1)
         \<and> fst (edgeErosion strength distance radius rnd i (data, k)) ! (i + 2) = data ! (i + 2))"
  using assms by (simp add: edgeErosion_def Let_def store_def)

theorem edge_erosion_exclusive_witness:
  "0 + 3 < length [200, 200, 200, 200 :: nat]
   \<and> fst (edgeErosion 1 0 0 (\<lambda>n. 0) 0 ([200, 200, 200, 200], 0)) ! 3 = 100
   \<and> fst (edgeErosion 1 0 0 (\<lambda>n. 0) 0 ([200, 200, 200, 200], 0)) ! 0 = 200
   \<and> snd (edgeErosion 1 0 0 (\<lambda>n. 0) 0 ([200, 200, 200, 200], 0)) = 2"
proof -
  have h: "0 + 3 < length [200, 200, 200, 200 :: nat]"
    by simp
  have c: "ToUint8Clamp (real ([200, 200, 200, 200] ! (0 + 3)) * (0.5 + 0 * 0.3)) = 100"
    by (simp add: ToUint8Clamp_def Let_def)
  from edge_erosion_exclusive [OF h, of 1 0 0 "\<lambda>n. 0" 0] c h show ?thesis
    by simp
qed

theorem edge_erosion_both_counterexample:
  "\<not> (\<exists>rnd. fst (edgeErosion 1 0 0 rnd 0 ([200, 200, 200, 200], 0)) ! 3 \<noteq> 200
            \<and> fst (edgeErosion 1 0 0 rnd 0 ([200, 200, 200, 200], 0)) ! 0 \<noteq> 200)"
  by (simp add: edgeErosion_def Let_def store_def)




end
